theory Spec2Isabelle
  imports Main
begin

section \<open>Strings, dates and errors\<close>

text \<open>
  The program is TypeScript. A string is a list of code units; the model covers the code
  units 0 to 255 (Latin-1), which is what \<^typ>\<open>char\<close> holds. A \<^verbatim>\<open>Date\<close> is the
  number of milliseconds it stores, and every \<^verbatim>\<open>new Date()\<close> of the source is an
  argument of the function that makes the call, so that no two readings of the clock are
  assumed equal. Every \<^verbatim>\<open>throw new Error(msg)\<close> is the value \<open>Inl (Error msg)\<close>:
  the program has one error class only, and a failure is told from another by its message.
\<close>

type_synonym Date = nat

datatype Error = Error (message: string)

text \<open>
  The white space of \<^verbatim>\<open>\s\<close> and of \<^verbatim>\<open>String.prototype.trim\<close> below code unit
  256: TAB, LF, VT, FF, CR, SPACE and NO-BREAK SPACE.
\<close>

definition isWhiteSpace :: "char \<Rightarrow> bool" where
  "isWhiteSpace c = (c \<in> set [CHR 0x09, CHR 0x0A, CHR 0x0B, CHR 0x0C, CHR 0x0D, CHR 0x20, CHR 0xA0])"

definition trim :: "string \<Rightarrow> string" where
  "trim s = rev (dropWhile isWhiteSpace (rev (dropWhile isWhiteSpace s)))"

text \<open>
  \<^verbatim>\<open>toLowerCase\<close> on Latin-1: A to Z, and the letters U+00C0 to U+00DE but the
  multiplication sign U+00D7, move up by 32.
\<close>

definition toLowerChar :: "char \<Rightarrow> char" where
  "toLowerChar c =
     (let n = (of_char c :: nat)
      in if (65 \<le> n \<and> n \<le> 90) \<or> (192 \<le> n \<and> n \<le> 222 \<and> n \<noteq> 215)
         then char_of (n + 32) else c)"

definition toLowerCase :: "string \<Rightarrow> string" where
  "toLowerCase s = map toLowerChar s"

text \<open>
  The regular expressions of the source are anchored at both ends and are sequences of
  single characters, character classes and classes under \<^verbatim>\<open>+\<close>. \<open>One p\<close> reads one
  code unit satisfying \<open>p\<close>, \<open>Plus p\<close> one or more; \<open>regex_test\<close> tries every split,
  as backtracking does.
\<close>

datatype atom = One "char \<Rightarrow> bool" | Plus "char \<Rightarrow> bool"

fun regex_test :: "atom list \<Rightarrow> string \<Rightarrow> bool" where
  "regex_test [] s = (s = [])"
| "regex_test (One p # r) [] = False"
| "regex_test (One p # r) (c # s) = (p c \<and> regex_test r s)"
| "regex_test (Plus p # r) [] = False"
| "regex_test (Plus p # r) (c # s) = (p c \<and> (regex_test r s \<or> regex_test (Plus p # r) s))"

section \<open>Value objects\<close>

subsection \<open>Email\<close>

datatype Email = Email (Email_getValue: string)

text \<open>The class \<^verbatim>\<open>[^\s@]\<close>.\<close>

definition notSpaceAt :: "char \<Rightarrow> bool" where
  "notSpaceAt c = (\<not> isWhiteSpace c \<and> c \<noteq> CHR ''@'')"

text \<open>\<^verbatim>\<open>/^[^\s@]+@[^\s@]+\.[^\s@]+$/\<close>\<close>

definition emailRegex :: "atom list" where
  "emailRegex =
     [Plus notSpaceAt, One (\<lambda>c. c = CHR ''@''), Plus notSpaceAt, One (\<lambda>c. c = CHR ''.''),
      Plus notSpaceAt]"

definition Email_isValid :: "string \<Rightarrow> bool" where
  "Email_isValid email = regex_test emailRegex email"

definition Email_new :: "string \<Rightarrow> Error + Email" where
  "Email_new email =
     (if \<not> Email_isValid email then Inl (Error ''Invalid email format'')
      else Inr (Email (trim (toLowerCase email))))"

definition Email_equals :: "Email \<Rightarrow> Email \<Rightarrow> bool" where
  "Email_equals a b = (Email_getValue a = Email_getValue b)"

subsection \<open>Username\<close>

datatype Username = Username (Username_getValue: string)

text \<open>The class \<^verbatim>\<open>[a-zA-Z0-9_]\<close>.\<close>

definition wordChar :: "char \<Rightarrow> bool" where
  "wordChar c =
     (let n = (of_char c :: nat)
      in (97 \<le> n \<and> n \<le> 122) \<or> (65 \<le> n \<and> n \<le> 90) \<or> (48 \<le> n \<and> n \<le> 57) \<or> c = CHR ''_'')"

definition Username_isValid :: "string \<Rightarrow> bool" where
  "Username_isValid username =
     (if username = [] \<or> length (trim username) < 3 \<or> length (trim username) > 50 then False
      else regex_test [Plus wordChar] (trim username))"

definition Username_new :: "string \<Rightarrow> Error + Username" where
  "Username_new username =
     (if \<not> Username_isValid username then Inl (Error ''Invalid username format'')
      else Inr (Username (trim username)))"

subsection \<open>Password\<close>

datatype Password = Password (Password_getValue: string)

definition Password_isValid :: "string \<Rightarrow> bool" where
  "Password_isValid password = (password \<noteq> [] \<and> length password \<ge> 8)"

definition Password_new :: "string \<Rightarrow> Error + Password" where
  "Password_new password =
     (if \<not> Password_isValid password
      then Inl (Error ''Password must be at least 8 characters long'')
      else Inr (Password password))"

section \<open>The User aggregate\<close>

datatype UserRole = RoleUser | RoleAdmin

datatype SocialProvider = Google | Facebook | Github

datatype Gender = Male | Female | Other

datatype AddressType = Home | Work | OtherAddress

datatype ProfileVisibility = Public | Friends | Private

text \<open>The string a provider is in the program.\<close>

fun providerString :: "SocialProvider \<Rightarrow> string" where
  "providerString Google = ''google''"
| "providerString Facebook = ''facebook''"
| "providerString Github = ''github''"

record UserProfile =
  firstName :: string
  lastName :: string
  displayName :: "string option"
  gender :: "Gender option"
  avatarUrl :: "string option"
  phone :: "string option"
  dateOfBirth :: "Date option"
  bio :: "string option"

text \<open>
  \<open>addr_id\<close>, \<open>addr_type\<close>, \<open>addr_createdAt\<close> and \<open>addr_updatedAt\<close> are the fields
  \<^verbatim>\<open>id\<close>, \<^verbatim>\<open>type\<close>, \<^verbatim>\<open>createdAt\<close> and \<^verbatim>\<open>updatedAt\<close> of an address.
\<close>

record Address =
  addr_id :: string
  addr_type :: AddressType
  addressLine1 :: string
  addressLine2 :: "string option"
  city :: string
  stateProvince :: "string option"
  postalCode :: "string option"
  country :: string
  isDefault :: bool
  addr_createdAt :: Date
  addr_updatedAt :: Date

text \<open>
  A \<^verbatim>\<open>Record<string, unknown>\<close> is a map from keys to values; the values are kept
  as strings. \<open>sa_id\<close> and \<open>sa_isActive\<close> are the fields \<^verbatim>\<open>id\<close> and
  \<^verbatim>\<open>isActive\<close> of a social account.
\<close>

type_synonym JsRecord = "string \<rightharpoonup> string"

record SocialAccount =
  sa_id :: string
  provider :: SocialProvider
  providerId :: string
  providerEmail :: string
  providerData :: JsRecord
  linkedAt :: Date
  sa_isActive :: bool

record Notifications =
  notif_email :: bool
  notif_push :: bool
  notif_sms :: bool

record Privacy =
  profileVisibility :: ProfileVisibility
  showEmail :: bool
  showPhone :: bool

record UserPreferences =
  language :: string
  timezone :: string
  notifications :: Notifications
  privacy :: Privacy

text \<open>\<open>user_id\<close> is the field \<^verbatim>\<open>id\<close> of \<^verbatim>\<open>UserProps\<close>.\<close>

record User =
  user_id :: "string option"
  username :: Username
  email :: Email
  passwordHash :: "string option"
  role :: UserRole
  profile :: UserProfile
  addresses :: "Address list"
  socialAccounts :: "SocialAccount list"
  emailVerified :: bool
  phoneVerified :: bool
  isActive :: bool
  isSuspended :: bool
  suspendedReason :: "string option"
  suspendedAt :: "Date option"
  preferences :: UserPreferences
  lastLoginAt :: "Date option"
  lastActiveAt :: "Date option"
  loginCount :: int
  customFields :: JsRecord
  createdAt :: Date
  updatedAt :: Date
  createdBy :: "string option"
  updatedBy :: "string option"

subsection \<open>Business logic methods\<close>

definition canLogin :: "User \<Rightarrow> bool" where
  "canLogin u = (isActive u \<and> \<not> isSuspended u \<and> emailVerified u)"

definition canAccessAdminFeatures :: "User \<Rightarrow> bool" where
  "canAccessAdminFeatures u = (role u = RoleAdmin \<and> canLogin u)"

definition hasLinkedSocialAccount :: "User \<Rightarrow> SocialProvider \<Rightarrow> bool" where
  "hasLinkedSocialAccount u p =
     list_ex (\<lambda>account. provider account = p \<and> sa_isActive account) (socialAccounts u)"

subsection \<open>State mutation methods\<close>

text \<open>
  The methods change the properties in place; here each returns the changed user. The
  \<open>t\<close> arguments are the readings of \<^verbatim>\<open>new Date()\<close>, in the order the method takes
  them. A \<^verbatim>\<open>Partial\<close> has \<open>None\<close> for a key that is absent and \<open>Some v\<close> for a key
  that is present with value \<open>v\<close>; the spread \<^verbatim>\<open>{...old, ...partial}\<close> keeps the old
  value of an absent key.
\<close>

record PartialUserProfile =
  pp_firstName :: "string option"
  pp_lastName :: "string option"
  pp_displayName :: "string option option"
  pp_gender :: "Gender option option"
  pp_avatarUrl :: "string option option"
  pp_phone :: "string option option"
  pp_dateOfBirth :: "Date option option"
  pp_bio :: "string option option"

record PartialUserPreferences =
  pp_language :: "string option"
  pp_timezone :: "string option"
  pp_notifications :: "Notifications option"
  pp_privacy :: "Privacy option"

definition spread :: "'a \<Rightarrow> 'a option \<Rightarrow> 'a" where
  "spread old new = (case new of None \<Rightarrow> old | Some v \<Rightarrow> v)"

definition updateProfile :: "User \<Rightarrow> PartialUserProfile \<Rightarrow> Date \<Rightarrow> User" where
  "updateProfile u p t =
     u\<lparr>profile :=
         \<lparr>firstName = spread (firstName (profile u)) (pp_firstName p),
          lastName = spread (lastName (profile u)) (pp_lastName p),
          displayName = spread (displayName (profile u)) (pp_displayName p),
          gender = spread (gender (profile u)) (pp_gender p),
          avatarUrl = spread (avatarUrl (profile u)) (pp_avatarUrl p),
          phone = spread (phone (profile u)) (pp_phone p),
          dateOfBirth = spread (dateOfBirth (profile u)) (pp_dateOfBirth p),
          bio = spread (bio (profile u)) (pp_bio p)\<rparr>,
       updatedAt := t\<rparr>"

definition updatePreferences :: "User \<Rightarrow> PartialUserPreferences \<Rightarrow> Date \<Rightarrow> User" where
  "updatePreferences u p t =
     u\<lparr>preferences :=
         \<lparr>language = spread (language (preferences u)) (pp_language p),
          timezone = spread (timezone (preferences u)) (pp_timezone p),
          notifications = spread (notifications (preferences u)) (pp_notifications p),
          privacy = spread (privacy (preferences u)) (pp_privacy p)\<rparr>,
       updatedAt := t\<rparr>"

definition activate :: "User \<Rightarrow> Date \<Rightarrow> User" where
  "activate u t = u\<lparr>isActive := True, updatedAt := t\<rparr>"

definition deactivate :: "User \<Rightarrow> Date \<Rightarrow> User" where
  "deactivate u t = u\<lparr>isActive := False, updatedAt := t\<rparr>"

definition suspend :: "User \<Rightarrow> string \<Rightarrow> Date \<Rightarrow> Date \<Rightarrow> User" where
  "suspend u reason t1 t2 =
     u\<lparr>isSuspended := True, suspendedReason := Some reason, suspendedAt := Some t1,
       updatedAt := t2\<rparr>"

definition unsuspend :: "User \<Rightarrow> Date \<Rightarrow> User" where
  "unsuspend u t =
     u\<lparr>isSuspended := False, suspendedReason := None, suspendedAt := None, updatedAt := t\<rparr>"

definition verifyEmail :: "User \<Rightarrow> Date \<Rightarrow> User" where
  "verifyEmail u t = u\<lparr>emailVerified := True, updatedAt := t\<rparr>"

text \<open>
  \<open>loginCount\<close> is a \<^verbatim>\<open>number\<close> that counts sign-ins; the model holds it as an
  integer, which is what the program computes while the count stays below \<open>2 ^ 53\<close>.
\<close>

definition recordLogin :: "User \<Rightarrow> Date \<Rightarrow> Date \<Rightarrow> Date \<Rightarrow> User" where
  "recordLogin u t1 t2 t3 =
     u\<lparr>lastLoginAt := Some t1, lastActiveAt := Some t2, loginCount := loginCount u + 1,
       updatedAt := t3\<rparr>"

definition changePassword :: "User \<Rightarrow> string \<Rightarrow> Date \<Rightarrow> User" where
  "changePassword u newPasswordHash t = u\<lparr>passwordHash := Some newPasswordHash, updatedAt := t\<rparr>"

text \<open>
  \<open>addAddress\<close> takes an address without \<^verbatim>\<open>id\<close>, \<^verbatim>\<open>createdAt\<close> and
  \<^verbatim>\<open>updatedAt\<close>; \<open>uuid\<close> is what \<^verbatim>\<open>uuidv4()\<close> returns.
\<close>

record AddressInput =
  in_type :: AddressType
  in_addressLine1 :: string
  in_addressLine2 :: "string option"
  in_city :: string
  in_stateProvince :: "string option"
  in_postalCode :: "string option"
  in_country :: string
  in_isDefault :: bool

definition addAddress :: "User \<Rightarrow> AddressInput \<Rightarrow> string \<Rightarrow> Date \<Rightarrow> Date \<Rightarrow> Date \<Rightarrow> User" where
  "addAddress u address uuid t1 t2 t3 =
     (let newAddress =
            \<lparr>addr_id = uuid, addr_type = in_type address,
             addressLine1 = in_addressLine1 address, addressLine2 = in_addressLine2 address,
             city = in_city address, stateProvince = in_stateProvince address,
             postalCode = in_postalCode address, country = in_country address,
             isDefault = in_isDefault address, addr_createdAt = t1, addr_updatedAt = t2\<rparr>
      in if length (addresses u) = 0 \<or> in_isDefault address
         then u\<lparr>addresses :=
                  map (\<lambda>addr. addr\<lparr>isDefault := False\<rparr>) (addresses u)
                  @ [newAddress\<lparr>isDefault := True\<rparr>],
                updatedAt := t3\<rparr>
         else u\<lparr>addresses := addresses u @ [newAddress], updatedAt := t3\<rparr>)"

text \<open>\<^verbatim>\<open>Array.prototype.findIndex\<close>; \<open>None\<close> is the \<^verbatim>\<open>-1\<close> of the source.\<close>

fun findIndex :: "('a \<Rightarrow> bool) \<Rightarrow> 'a list \<Rightarrow> nat option" where
  "findIndex p [] = None"
| "findIndex p (x # xs) =
     (if p x then Some 0 else (case findIndex p xs of None \<Rightarrow> None | Some i \<Rightarrow> Some (Suc i)))"

definition linkSocialAccount ::
  "User \<Rightarrow> SocialProvider \<Rightarrow> string \<Rightarrow> string \<Rightarrow> JsRecord \<Rightarrow> string \<Rightarrow> Date \<Rightarrow> Date \<Rightarrow> User" where
  "linkSocialAccount u prov provId provEmail provData uuid t1 t2 =
     (case findIndex (\<lambda>account. provider account = prov \<and> sa_isActive account) (socialAccounts u) of
        Some existingAccountIndex \<Rightarrow>
          u\<lparr>socialAccounts :=
              (socialAccounts u)[existingAccountIndex :=
                 (socialAccounts u ! existingAccountIndex)
                   \<lparr>providerId := provId, providerEmail := provEmail,
                    providerData :=
                      providerData (socialAccounts u ! existingAccountIndex) ++ provData,
                    linkedAt := t1\<rparr>],
            updatedAt := t2\<rparr>
      | None \<Rightarrow>
          u\<lparr>socialAccounts :=
              socialAccounts u
              @ [\<lparr>sa_id = uuid, provider = prov, providerId = provId, providerEmail = provEmail,
                  providerData = provData, linkedAt = t1, sa_isActive = True\<rparr>],
            updatedAt := t2\<rparr>)"

section \<open>The persistence port\<close>

text \<open>
  \<^verbatim>\<open>UserRepository\<close> is an interface; its implementation is a collaborator of the use
  cases. The model takes what the port answers as a record of functions, one per method,
  each promise taken as resolved, and returns beside each use case's result the calls it
  made on the port, in order, with their arguments.
\<close>

record UserFilters =
  f_isActive :: "bool option"
  f_emailVerified :: "bool option"
  f_role :: "string option"
  f_isSuspended :: "bool option"
  f_createdAfter :: "Date option"
  f_createdBefore :: "Date option"

datatype SortOrder = Asc | Desc

text \<open>A \<^verbatim>\<open>number\<close> holding a page, a limit or a count is an integer here.\<close>

record PaginationOptions =
  page :: int
  limit :: int
  sortBy :: "string option"
  sortOrder :: "SortOrder option"

record PageInfo =
  pg_page :: int
  pg_limit :: int
  pg_total :: int
  pg_pages :: int

record PaginationResult =
  pr_data :: "User list"
  pr_pagination :: PageInfo

text \<open>
  The object \<^verbatim>\<open>SearchUsers\<close> builds has the key \<^verbatim>\<open>skip\<close> beside those of
  \<^verbatim>\<open>SearchOptions\<close>.
\<close>

record SearchOptions = PaginationOptions +
  skip :: int
  includeInactive :: "bool option"

record Conflicts =
  c_email :: bool
  c_username :: bool

record ExistsResult =
  er_exists :: bool
  er_conflicts :: "Conflicts option"

record UserRepository =
  create :: "User \<Rightarrow> User"
  findById :: "string \<Rightarrow> User option"
  findByEmail :: "Email \<Rightarrow> User option"
  findByUsername :: "Username \<Rightarrow> User option"
  findBySocialAccount :: "SocialProvider \<Rightarrow> string \<Rightarrow> User option"
  update :: "User \<Rightarrow> User"
  delete :: "string \<Rightarrow> bool"
  findAll :: "UserFilters option \<Rightarrow> PaginationOptions \<Rightarrow> PaginationResult"
  search :: "string \<Rightarrow> SearchOptions \<Rightarrow> User list"
  exists :: "Email \<Rightarrow> Username \<Rightarrow> ExistsResult"

datatype PortCall =
    CallCreate User
  | CallFindById string
  | CallFindByEmail Email
  | CallFindByUsername Username
  | CallFindBySocialAccount SocialProvider string
  | CallUpdate User
  | CallDelete string
  | CallFindAll "UserFilters option" PaginationOptions
  | CallSearch string SearchOptions
  | CallExists Email Username

type_synonym 'a outcome = "(Error + 'a) \<times> PortCall list"

section \<open>Use cases\<close>

text \<open>
  In every use case \<open>now k\<close> is the reading of the \<open>k\<close>-th \<^verbatim>\<open>new Date()\<close> of the
  execution, counted from 0.
\<close>

subsection \<open>GetUser\<close>

definition GetUser_execute :: "UserRepository \<Rightarrow> string \<Rightarrow> string \<Rightarrow> string \<Rightarrow> User outcome" where
  "GetUser_execute repo userId requestingUserId requestingUserRole =
     (case findById repo userId of
        None \<Rightarrow> (Inl (Error ''User not found''), [CallFindById userId])
      | Some targetUser \<Rightarrow>
          (let canAccessFullProfile =
                 (requestingUserRole = ''admin'' \<or> requestingUserId = userId)
           in if \<not> canAccessFullProfile
                 \<and> profileVisibility (privacy (preferences targetUser)) = Private
              then (Inl (Error ''This profile is private''), [CallFindById userId])
              else (Inr targetUser, [CallFindById userId])))"

subsection \<open>UpdateUser\<close>

definition UpdateUser_execute ::
  "UserRepository \<Rightarrow> (nat \<Rightarrow> Date) \<Rightarrow> string \<Rightarrow> string \<Rightarrow> string
   \<Rightarrow> PartialUserProfile option \<Rightarrow> PartialUserPreferences option \<Rightarrow> User outcome" where
  "UpdateUser_execute repo now userId requestingUserId requestingUserRole profileIn preferencesIn =
     (case findById repo userId of
        None \<Rightarrow> (Inl (Error ''User not found''), [CallFindById userId])
      | Some user \<Rightarrow>
          (let canModify = (requestingUserRole = ''admin'' \<or> requestingUserId = userId)
           in if \<not> canModify
              then (Inl (Error ''You can only update your own profile or you must be an admin''),
                    [CallFindById userId])
              else
                (let user1 = (case profileIn of None \<Rightarrow> user
                              | Some p \<Rightarrow> updateProfile user p (now 0));
                     user2 = (case preferencesIn of None \<Rightarrow> user1
                              | Some q \<Rightarrow>
                                  updatePreferences user1 q
                                    (now (case profileIn of None \<Rightarrow> 0 | Some p \<Rightarrow> 1)))
                 in (Inr (update repo user2), [CallFindById userId, CallUpdate user2]))))"

subsection \<open>DeleteUser\<close>

record DeleteUserResponse =
  del_message :: string
  deletedAt :: Date

definition DeleteUser_execute ::
  "UserRepository \<Rightarrow> (nat \<Rightarrow> Date) \<Rightarrow> string \<Rightarrow> string \<Rightarrow> string \<Rightarrow> DeleteUserResponse outcome" where
  "DeleteUser_execute repo now userId requestingUserId requestingUserRole =
     (case findById repo userId of
        None \<Rightarrow> (Inl (Error ''User not found''), [CallFindById userId])
      | Some user \<Rightarrow>
          (let canDelete = (requestingUserRole = ''admin'' \<or> requestingUserId = userId)
           in if \<not> canDelete
              then (Inl (Error ''You can only delete your own account or you must be an admin''),
                    [CallFindById userId])
              else if requestingUserId = userId \<and> requestingUserRole = ''admin''
              then (Inl (Error ''Administrators cannot delete their own account''),
                    [CallFindById userId])
              else
                (let user1 = deactivate user (now 0);
                     user2 = suspend user1 ''Account deleted by user'' (now 1) (now 2)
                 in (Inr \<lparr>del_message = ''User account has been successfully deleted'',
                          deletedAt = now 3\<rparr>,
                     [CallFindById userId, CallUpdate user2]))))"

subsection \<open>ListUsers\<close>

text \<open>
  \<^verbatim>\<open>x || d\<close> is \<open>d\<close> when \<open>x\<close> is \<^verbatim>\<open>undefined\<close>, 0 or the empty string. The request's
  \<^verbatim>\<open>options\<close> may be absent.
\<close>

definition orNum :: "int option \<Rightarrow> int \<Rightarrow> int" where
  "orNum x d = (case x of None \<Rightarrow> d | Some n \<Rightarrow> if n = 0 then d else n)"

definition orStr :: "string option \<Rightarrow> string \<Rightarrow> string" where
  "orStr x d = (case x of None \<Rightarrow> d | Some s \<Rightarrow> if s = [] then d else s)"

definition ListUsers_execute ::
  "UserRepository \<Rightarrow> string \<Rightarrow> UserFilters option \<Rightarrow> PaginationOptions option
   \<Rightarrow> PaginationResult outcome" where
  "ListUsers_execute repo requestingUserRole filters options =
     (if requestingUserRole \<noteq> ''admin''
      then (Inl (Error ''Only administrators can view all users''), [])
      else
        (let queryOptions =
               \<lparr>page = orNum (map_option page options) 1,
                limit = min (orNum (map_option limit options) 20) 100,
                sortBy = Some (orStr (Option.bind options sortBy) ''createdAt''),
                sortOrder =
                  Some (case Option.bind options sortOrder of None \<Rightarrow> Desc | Some d \<Rightarrow> d)\<rparr>
         in (Inr (findAll repo filters queryOptions), [CallFindAll filters queryOptions])))"

subsection \<open>SearchUsers\<close>

record SearchRequestOptions =
  rq_limit :: "int option"
  rq_skip :: "int option"
  rq_includeInactive :: "bool option"

definition SearchUsers_execute ::
  "UserRepository \<Rightarrow> string \<Rightarrow> string \<Rightarrow> SearchRequestOptions option \<Rightarrow> User list outcome" where
  "SearchUsers_execute repo query requestingUserRole options =
     (if query = [] \<or> length (trim query) < 2
      then (Inl (Error ''Search query must be at least 2 characters long''), [])
      else
        (let searchOptions =
               \<lparr>page = 1,
                limit = min (orNum (Option.bind options rq_limit) 20) 50,
                sortBy = None,
                sortOrder = None,
                skip = orNum (Option.bind options rq_skip) 0,
                includeInactive =
                  (if requestingUserRole = ''admin'' then Option.bind options rq_includeInactive
                   else Some False)\<rparr>
         in (Inr (search repo (trim query) searchOptions),
             [CallSearch (trim query) searchOptions])))"

subsection \<open>LinkSocialAccount\<close>

text \<open>
  \<open>uuid\<close> is what \<^verbatim>\<open>uuidv4()\<close> returns, should the aggregate ask for it. The
  request's \<^verbatim>\<open>providerData\<close> defaults to the empty object.
\<close>

definition LinkSocialAccount_execute ::
  "UserRepository \<Rightarrow> (nat \<Rightarrow> Date) \<Rightarrow> string \<Rightarrow> string \<Rightarrow> string \<Rightarrow> string
   \<Rightarrow> SocialProvider \<Rightarrow> string \<Rightarrow> string \<Rightarrow> JsRecord option \<Rightarrow> User outcome" where
  "LinkSocialAccount_execute repo now uuid userId requestingUserId requestingUserRole
       prov provId provEmail provDataIn =
     (let provData = (case provDataIn of None \<Rightarrow> Map.empty | Some d \<Rightarrow> d);
          canModify = (requestingUserRole = ''admin'' \<or> requestingUserId = userId)
      in if \<not> canModify
         then (Inl (Error ''You can only link social accounts to your own profile''), [])
         else
           (case findById repo userId of
              None \<Rightarrow> (Inl (Error ''User not found''), [CallFindById userId])
            | Some user \<Rightarrow>
                (let existingUser = findBySocialAccount repo prov provId
                 in if (case existingUser of None \<Rightarrow> False
                        | Some other \<Rightarrow> user_id other \<noteq> Some userId)
                    then (Inl (Error (''This '' @ providerString prov
                                      @ '' account is already linked to another user'')),
                          [CallFindById userId, CallFindBySocialAccount prov provId])
                    else
                      (let user1 = linkSocialAccount user prov provId provEmail provData uuid
                                     (now 0) (now 1)
                       in (Inr (update repo user1),
                           [CallFindById userId, CallFindBySocialAccount prov provId,
                            CallUpdate user1])))))"

subsection \<open>LoginUser\<close>

record TokenPayload =
  tp_userId :: "string option"
  tp_email :: string
  tp_role :: UserRole

record Tokens =
  accessToken :: string
  refreshToken :: string

record LoginUserResponse =
  lr_user :: User
  lr_tokens :: Tokens

text \<open>\<^verbatim>\<open>Array.prototype.join\<close>.\<close>

fun join :: "string \<Rightarrow> string list \<Rightarrow> string" where
  "join sep [] = []"
| "join sep [x] = x"
| "join sep (x # y # ys) = x @ sep @ join sep (y # ys)"

definition LoginUser_execute ::
  "UserRepository \<Rightarrow> (string \<Rightarrow> string \<Rightarrow> bool) \<Rightarrow> (TokenPayload \<Rightarrow> Tokens) \<Rightarrow> (nat \<Rightarrow> Date)
   \<Rightarrow> string \<Rightarrow> string \<Rightarrow> LoginUserResponse outcome" where
  "LoginUser_execute repo comparePassword generateTokens now emailIn passwordIn =
     (if emailIn = [] \<or> passwordIn = []
      then (Inl (Error ''Email and password are required''), [])
      else
        (case Email_new emailIn of
           Inl e \<Rightarrow> (Inl e, [])
         | Inr emailVO \<Rightarrow>
             (case findByEmail repo emailVO of
                None \<Rightarrow> (Inl (Error ''Invalid email or password''), [CallFindByEmail emailVO])
              | Some user \<Rightarrow>
                  if \<not> canLogin user
                  then
                    (let reasons =
                           (if \<not> isActive user then [''account is inactive''] else [])
                           @ (if isSuspended user then [''account is suspended''] else [])
                           @ (if \<not> emailVerified user then [''email is not verified''] else [])
                     in (Inl (Error (''Cannot login: '' @ join '', '' reasons)),
                         [CallFindByEmail emailVO]))
                  else
                    (case passwordHash user of
                       None \<Rightarrow>
                         (Inl (Error ''Password not set for this account''),
                          [CallFindByEmail emailVO])
                     | Some hash \<Rightarrow>
                         if hash = []
                         then (Inl (Error ''Password not set for this account''),
                               [CallFindByEmail emailVO])
                         else if \<not> comparePassword passwordIn hash
                         then (Inl (Error ''Invalid email or password''),
                               [CallFindByEmail emailVO])
                         else
                           (let user1 = recordLogin user (now 0) (now 1) (now 2);
                                payload = \<lparr>tp_userId = user_id user1,
                                           tp_email = Email_getValue (email user1),
                                           tp_role = role user1\<rparr>;
                                tokens = generateTokens payload
                            in (Inr \<lparr>lr_user = user1, lr_tokens = tokens\<rparr>,
                                [CallFindByEmail emailVO, CallUpdate user1]))))))"

subsection \<open>CreateUser\<close>

record CreateUserRequest =
  rq_username :: string
  rq_email :: string
  rq_password :: string
  rq_firstName :: string
  rq_lastName :: string
  rq_role :: "UserRole option"
  rq_gender :: "Gender option"
  rq_phone :: "string option"
  rq_dateOfBirth :: "Date option"
  rq_bio :: "string option"

record CreateUserResponse =
  cr_user :: User
  requiresEmailVerification :: bool

text \<open>
  \<^verbatim>\<open>User.create\<close> spreads the properties it is given and then sets both time stamps to
  one reading of the clock. Its argument has no \<^verbatim>\<open>id\<close>, \<^verbatim>\<open>createdAt\<close> and
  \<^verbatim>\<open>updatedAt\<close>: a caller writes \<open>None\<close> and 0 there, and the 0 is overwritten.
\<close>

definition User_create :: "User \<Rightarrow> Date \<Rightarrow> User" where
  "User_create props t = props\<lparr>createdAt := t, updatedAt := t\<rparr>"

text \<open>\<^verbatim>\<open>...(x && { key: x })\<close> adds the key when the string \<open>x\<close> is there and not empty.\<close>

definition truthyStr :: "string option \<Rightarrow> string option" where
  "truthyStr x = (case x of None \<Rightarrow> None | Some s \<Rightarrow> if s = [] then None else Some s)"

definition CreateUser_execute ::
  "UserRepository \<Rightarrow> (string \<Rightarrow> string) \<Rightarrow> (nat \<Rightarrow> Date) \<Rightarrow> CreateUserRequest
   \<Rightarrow> CreateUserResponse outcome" where
  "CreateUser_execute repo hashPassword now request =
     (case Email_new (rq_email request) of
        Inl e \<Rightarrow> (Inl e, [])
      | Inr emailVO \<Rightarrow>
     (case Username_new (rq_username request) of
        Inl e \<Rightarrow> (Inl e, [])
      | Inr usernameVO \<Rightarrow>
     (case Password_new (rq_password request) of
        Inl e \<Rightarrow> (Inl e, [])
      | Inr passwordVO \<Rightarrow>
     (let existingUser = exists repo emailVO usernameVO
      in if er_exists existingUser
         then
           (let conflicts =
                  (if (case er_conflicts existingUser of None \<Rightarrow> False | Some c \<Rightarrow> c_email c)
                   then [''Email already registered''] else [])
                  @ (if (case er_conflicts existingUser of None \<Rightarrow> False
                         | Some c \<Rightarrow> c_username c)
                     then [''Username already taken''] else [])
            in (Inl (Error (join '', '' conflicts)), [CallExists emailVO usernameVO]))
         else
           (let passwordHashed = hashPassword (Password_getValue passwordVO);
                profileNew =
                  \<lparr>firstName = rq_firstName request, lastName = rq_lastName request,
                   displayName = None, gender = rq_gender request, avatarUrl = None,
                   phone = truthyStr (rq_phone request),
                   dateOfBirth = rq_dateOfBirth request,
                   bio = truthyStr (rq_bio request)\<rparr>;
                user =
                  User_create
                    \<lparr>user_id = None, username = usernameVO, email = emailVO,
                     passwordHash = Some passwordHashed,
                     role = (case rq_role request of None \<Rightarrow> RoleUser | Some r \<Rightarrow> r),
                     profile = profileNew, addresses = [], socialAccounts = [],
                     emailVerified = False, phoneVerified = False, isActive = True,
                     isSuspended = False, suspendedReason = None, suspendedAt = None,
                     preferences =
                       \<lparr>language = ''en'', timezone = ''UTC'',
                        notifications = \<lparr>notif_email = True, notif_push = True, notif_sms = False\<rparr>,
                        privacy = \<lparr>profileVisibility = Public, showEmail = False,
                                   showPhone = False\<rparr>\<rparr>,
                     lastLoginAt = None, lastActiveAt = None, loginCount = 0,
                     customFields = Map.empty, createdAt = 0, updatedAt = 0,
                     createdBy = None, updatedBy = None\<rparr>
                    (now 0);
                savedUser = create repo user
            in (Inr \<lparr>cr_user = savedUser, requiresEmailVerification = True\<rparr>,
                [CallExists emailVO usernameVO, CallCreate user]))))))"

section \<open>Fixtures of the unit tests\<close>

text \<open>
  The user that \<^verbatim>\<open>createMockUser\<close> builds in the repository's unit tests (created at
  time \<open>t\<close>, with the id \<open>i\<close> the tests give it), and a port that answers as
  \<^verbatim>\<open>mockResolvedValue\<close> is told to. The theorems below are stated for every user and
  every port; the fixtures are the concrete inputs they are tried on.
\<close>

definition createMockUser :: "string option \<Rightarrow> UserRole \<Rightarrow> Date \<Rightarrow> User" where
  "createMockUser i r t =
     User_create
       \<lparr>user_id = i, username = Username ''testuser'', email = Email ''test@example.com'',
        passwordHash = Some ''hashed_password'', role = r,
        profile = \<lparr>firstName = ''Test'', lastName = ''User'', displayName = None,
                   gender = None, avatarUrl = None, phone = None, dateOfBirth = None,
                   bio = None\<rparr>,
        addresses = [], socialAccounts = [],
        emailVerified = True, phoneVerified = False, isActive = True, isSuspended = False,
        suspendedReason = None, suspendedAt = None,
        preferences =
          \<lparr>language = ''en'', timezone = ''UTC'',
           notifications = \<lparr>notif_email = True, notif_push = True, notif_sms = False\<rparr>,
           privacy = \<lparr>profileVisibility = Public, showEmail = False, showPhone = False\<rparr>\<rparr>,
        lastLoginAt = None, lastActiveAt = None, loginCount = 0,
        customFields = Map.empty, createdAt = 0, updatedAt = 0,
        createdBy = None, updatedBy = None\<rparr>
       t"

definition mockUserRepository :: "User option \<Rightarrow> User option \<Rightarrow> ExistsResult \<Rightarrow> UserRepository" where
  "mockUserRepository found linked existing =
     \<lparr>create = (\<lambda>u. u),
      findById = (\<lambda>i. found),
      findByEmail = (\<lambda>e. found),
      findByUsername = (\<lambda>n. found),
      findBySocialAccount = (\<lambda>p i. linked),
      update = (\<lambda>u. u),
      delete = (\<lambda>i. True),
      findAll = (\<lambda>f opts. \<lparr>pr_data = [],
                  pr_pagination = \<lparr>pg_page = page opts, pg_limit = limit opts, pg_total = 0,
                                    pg_pages = 0\<rparr>\<rparr>),
      search = (\<lambda>q opts. []),
      exists = (\<lambda>e n. existing)\<rparr>"

text \<open>The \<^verbatim>\<open>validRequest\<close> of the tests of \<^verbatim>\<open>CreateUser\<close>.\<close>

definition validRequest :: CreateUserRequest where
  "validRequest =
     \<lparr>rq_username = ''testuser'', rq_email = ''test@example.com'', rq_password = ''password123'',
      rq_firstName = ''Test'', rq_lastName = ''User'', rq_role = None, rq_gender = None,
      rq_phone = None, rq_dateOfBirth = None, rq_bio = None\<rparr>"

section \<open>Sign-in gate\<close>

text \<open>
  C1. For every user, whatever the three flags \<open>isActive\<close>, \<open>isSuspended\<close> and
  \<open>emailVerified\<close> are set to, \<open>canLogin\<close> is true exactly when the user is active, not
  suspended and verified; it is false as soon as the user is inactive, or suspended, or
  unverified.
\<close>

theorem canLogin_iff:
  "canLogin (u\<lparr>isActive := a, isSuspended := s, emailVerified := v\<rparr>) = (a \<and> \<not> s \<and> v)
   \<and> canLogin u = (isActive u \<and> \<not> isSuspended u \<and> emailVerified u)
   \<and> \<not> canLogin (u\<lparr>isActive := False\<rparr>)
   \<and> \<not> canLogin (u\<lparr>isSuspended := True\<rparr>)
   \<and> \<not> canLogin (u\<lparr>emailVerified := False\<rparr>)"
  by (simp add: canLogin_def)

section \<open>Sign-in failures\<close>

text \<open>
  C2. For a sign-in request whose email is well formed and whose password is not empty, the
  run in which no user has that email and the run in which the user is found, may sign in,
  has a stored hash, and the password does not match it, end the same way: the same error
  with the same message, after the same single call on the port. A caller cannot tell one
  from the other.
\<close>

theorem login_failures_identical:
  assumes "passwordIn \<noteq> []"
    and "Email_new emailIn = Inr emailVO"
    and "findByEmail repoA emailVO = None"
    and "findByEmail repoB emailVO = Some user"
    and "canLogin user"
    and "passwordHash user = Some hash"
    and "hash \<noteq> []"
    and "\<not> comparePassword passwordIn hash"
  shows "LoginUser_execute repoA comparePassword generateTokens now emailIn passwordIn
           = (Inl (Error ''Invalid email or password''), [CallFindByEmail emailVO])
         \<and> LoginUser_execute repoB comparePassword generateTokens now emailIn passwordIn
           = LoginUser_execute repoA comparePassword generateTokens now emailIn passwordIn"
proof -
  have ne: "emailIn \<noteq> []"
    using assms(2) by (auto simp: Email_new_def Email_isValid_def emailRegex_def split: if_splits)
  show ?thesis
    using assms ne by (simp add: LoginUser_execute_def)
qed

theorem login_failures_identical_witness:
  "canLogin (createMockUser None RoleUser 0)
   \<and> LoginUser_execute (mockUserRepository None None \<lparr>er_exists = False, er_conflicts = None\<rparr>)
       (\<lambda>p h. False) (\<lambda>p. \<lparr>accessToken = ''access_token'', refreshToken = ''refresh_token''\<rparr>)
       (\<lambda>k. 0) ''test@example.com'' ''password123''
     = (Inl (Error ''Invalid email or password''), [CallFindByEmail (Email ''test@example.com'')])
   \<and> LoginUser_execute
       (mockUserRepository (Some (createMockUser None RoleUser 0)) None
          \<lparr>er_exists = False, er_conflicts = None\<rparr>)
       (\<lambda>p h. False) (\<lambda>p. \<lparr>accessToken = ''access_token'', refreshToken = ''refresh_token''\<rparr>)
       (\<lambda>k. 0) ''test@example.com'' ''password123''
     = LoginUser_execute (mockUserRepository None None \<lparr>er_exists = False, er_conflicts = None\<rparr>)
       (\<lambda>p h. False) (\<lambda>p. \<lparr>accessToken = ''access_token'', refreshToken = ''refresh_token''\<rparr>)
       (\<lambda>k. 0) ''test@example.com'' ''password123''"
proof -
  have e: "Email_new ''test@example.com'' = Inr (Email ''test@example.com'')"
    by code_simp
  show ?thesis
    using login_failures_identical [where passwordIn = "''password123''"
        and emailIn = "''test@example.com''" and emailVO = "Email ''test@example.com''"
        and repoA = "mockUserRepository None None \<lparr>er_exists = False, er_conflicts = None\<rparr>"
        and repoB = "mockUserRepository (Some (createMockUser None RoleUser 0)) None
          \<lparr>er_exists = False, er_conflicts = None\<rparr>"
        and user = "createMockUser None RoleUser 0" and hash = "''hashed_password''"
        and comparePassword = "\<lambda>p h. False", OF _ e]
    by (simp add: mockUserRepository_def createMockUser_def User_create_def canLogin_def)
qed

section \<open>Registration conflicts\<close>

text \<open>
  C3. When the email, the username and the password of a registration request construct,
  and the port's \<open>exists\<close> reports a conflict, registration fails with the error that names
  every field the port marks as taken: the email alone when only the email is taken, the
  username alone when only the username is taken, and both together, the email first, when
  both are. Nothing is created.
\<close>

theorem register_conflict_names_all:
  assumes "Email_new (rq_email request) = Inr emailVO"
    and "Username_new (rq_username request) = Inr usernameVO"
    and "Password_new (rq_password request) = Inr passwordVO"
    and "er_exists (exists repo emailVO usernameVO)"
    and "er_conflicts (exists repo emailVO usernameVO) = Some c"
  shows "CreateUser_execute repo hashPassword now request =
           (Inl (Error (if c_email c
                        then (if c_username c
                              then ''Email already registered, Username already taken''
                              else ''Email already registered'')
                        else (if c_username c then ''Username already taken'' else []))),
            [CallExists emailVO usernameVO])"
  using assms by (simp add: CreateUser_execute_def)

theorem register_conflict_names_all_witness:
  "CreateUser_execute
       (mockUserRepository None None
          \<lparr>er_exists = True, er_conflicts = Some \<lparr>c_email = True, c_username = False\<rparr>\<rparr>)
       (\<lambda>p. ''hashed_password'') (\<lambda>k. 0) validRequest
     = (Inl (Error ''Email already registered''),
        [CallExists (Email ''test@example.com'') (Username ''testuser'')])
   \<and> CreateUser_execute
       (mockUserRepository None None
          \<lparr>er_exists = True, er_conflicts = Some \<lparr>c_email = True, c_username = True\<rparr>\<rparr>)
       (\<lambda>p. ''hashed_password'') (\<lambda>k. 0) validRequest
     = (Inl (Error ''Email already registered, Username already taken''),
        [CallExists (Email ''test@example.com'') (Username ''testuser'')])"
proof -
  have e: "Email_new (rq_email validRequest) = Inr (Email ''test@example.com'')"
    unfolding validRequest_def by code_simp
  have n: "Username_new (rq_username validRequest) = Inr (Username ''testuser'')"
    unfolding validRequest_def by code_simp
  have p: "Password_new (rq_password validRequest) = Inr (Password ''password123'')"
    unfolding validRequest_def by code_simp
  show ?thesis
    using register_conflict_names_all [OF e n p,
        of "mockUserRepository None None
          \<lparr>er_exists = True, er_conflicts = Some \<lparr>c_email = True, c_username = False\<rparr>\<rparr>"
          "\<lparr>c_email = True, c_username = False\<rparr>" "\<lambda>p. ''hashed_password''" "\<lambda>k. 0"]
      register_conflict_names_all [OF e n p,
        of "mockUserRepository None None
          \<lparr>er_exists = True, er_conflicts = Some \<lparr>c_email = True, c_username = True\<rparr>\<rparr>"
          "\<lparr>c_email = True, c_username = True\<rparr>" "\<lambda>p. ''hashed_password''" "\<lambda>k. 0"]
    by (simp add: mockUserRepository_def)
qed

section \<open>Deleting an account\<close>

text \<open>
  C5. On an existing user: a requester who is not an admin and deletes their own account
  succeeds, and the one write on the port is an \<open>update\<close> of the user made inactive and
  suspended with the reason "Account deleted by user" (no \<open>delete\<close> is called, the record
  stays); an admin who deletes their own account fails with the error of the guard and
  nothing is written; an admin who deletes another user succeeds with the same write. The
  user written can no longer sign in.
\<close>

theorem delete_soft_and_admin_guard:
  assumes "findById repo userId = Some user"
  shows "(requestingUserRole \<noteq> ''admin'' \<and> requestingUserId = userId \<longrightarrow>
            DeleteUser_execute repo now userId requestingUserId requestingUserRole =
              (Inr \<lparr>del_message = ''User account has been successfully deleted'',
                    deletedAt = now 3\<rparr>,
               [CallFindById userId,
                CallUpdate (user\<lparr>isActive := False, isSuspended := True,
                                  suspendedReason := Some ''Account deleted by user'',
                                  suspendedAt := Some (now 1), updatedAt := now 2\<rparr>)]))
       \<and> (requestingUserRole = ''admin'' \<and> requestingUserId = userId \<longrightarrow>
            DeleteUser_execute repo now userId requestingUserId requestingUserRole =
              (Inl (Error ''Administrators cannot delete their own account''),
               [CallFindById userId]))
       \<and> (requestingUserRole = ''admin'' \<and> requestingUserId \<noteq> userId \<longrightarrow>
            DeleteUser_execute repo now userId requestingUserId requestingUserRole =
              (Inr \<lparr>del_message = ''User account has been successfully deleted'',
                    deletedAt = now 3\<rparr>,
               [CallFindById userId,
                CallUpdate (user\<lparr>isActive := False, isSuspended := True,
                                  suspendedReason := Some ''Account deleted by user'',
                                  suspendedAt := Some (now 1), updatedAt := now 2\<rparr>)]))
       \<and> \<not> canLogin (user\<lparr>isActive := False, isSuspended := True,
                            suspendedReason := Some ''Account deleted by user'',
                            suspendedAt := Some (now 1), updatedAt := now 2\<rparr>)"
  using assms
  by (simp add: DeleteUser_execute_def deactivate_def suspend_def canLogin_def)

theorem delete_soft_and_admin_guard_witness:
  "findById (mockUserRepository (Some (createMockUser (Some ''user-123'') RoleUser 0)) None
              \<lparr>er_exists = False, er_conflicts = None\<rparr>) ''user-123''
     = Some (createMockUser (Some ''user-123'') RoleUser 0)
   \<and> DeleteUser_execute
         (mockUserRepository (Some (createMockUser (Some ''user-123'') RoleUser 0)) None
            \<lparr>er_exists = False, er_conflicts = None\<rparr>)
         (\<lambda>k. 10 + k) ''user-123'' ''user-123'' ''user''
       = (Inr \<lparr>del_message = ''User account has been successfully deleted'', deletedAt = 13\<rparr>,
          [CallFindById ''user-123'',
           CallUpdate ((createMockUser (Some ''user-123'') RoleUser 0)
                         \<lparr>isActive := False, isSuspended := True,
                          suspendedReason := Some ''Account deleted by user'',
                          suspendedAt := Some 11, updatedAt := 12\<rparr>)])
   \<and> DeleteUser_execute
         (mockUserRepository (Some (createMockUser (Some ''user-123'') RoleUser 0)) None
            \<lparr>er_exists = False, er_conflicts = None\<rparr>)
         (\<lambda>k. 10 + k) ''user-123'' ''user-123'' ''admin''
       = (Inl (Error ''Administrators cannot delete their own account''),
          [CallFindById ''user-123''])
   \<and> DeleteUser_execute
         (mockUserRepository (Some (createMockUser (Some ''user-123'') RoleUser 0)) None
            \<lparr>er_exists = False, er_conflicts = None\<rparr>)
         (\<lambda>k. 10 + k) ''user-123'' ''admin-456'' ''admin''
       = (Inr \<lparr>del_message = ''User account has been successfully deleted'', deletedAt = 13\<rparr>,
          [CallFindById ''user-123'',
           CallUpdate ((createMockUser (Some ''user-123'') RoleUser 0)
                         \<lparr>isActive := False, isSuspended := True,
                          suspendedReason := Some ''Account deleted by user'',
                          suspendedAt := Some 11, updatedAt := 12\<rparr>)])"
proof -
  let ?u = "createMockUser (Some ''user-123'') RoleUser 0"
  let ?repo = "mockUserRepository (Some ?u) None \<lparr>er_exists = False, er_conflicts = None\<rparr>"
  have f: "findById ?repo ''user-123'' = Some ?u"
    by (simp add: mockUserRepository_def)
  show ?thesis
    using f
      delete_soft_and_admin_guard [OF f, of "''user''" "''user-123''" "\<lambda>k. 10 + k"]
      delete_soft_and_admin_guard [OF f, of "''admin''" "''user-123''" "\<lambda>k. 10 + k"]
      delete_soft_and_admin_guard [OF f, of "''admin''" "''admin-456''" "\<lambda>k. 10 + k"]
    by simp
qed

section \<open>Listing users\<close>

text \<open>
  C8. A requester whose role is not admin gets the error "Only administrators can view all
  users" whatever the filters and the pagination are, and the port is not called. For an
  admin the port's \<open>findAll\<close> is called once, with the filters as given, and its answer
  is the result. Without options the port receives page 1, limit 20, sort key createdAt,
  descending. With options it receives, field by field: the requested page, or 1 when that
  is 0; the requested limit, or 20 when that is 0, or 100 when it is above 100; the
  requested sort key, or createdAt when that is absent or empty; the requested direction,
  or descending when that is absent.
\<close>

theorem list_admin_only_defaults_cap:
  "(requestingUserRole \<noteq> ''admin'' \<longrightarrow>
      ListUsers_execute repo requestingUserRole filters options =
        (Inl (Error ''Only administrators can view all users''), []))
   \<and> ListUsers_execute repo ''admin'' filters None =
        (Inr (findAll repo filters
                \<lparr>page = 1, limit = 20, sortBy = Some ''createdAt'', sortOrder = Some Desc\<rparr>),
         [CallFindAll filters
            \<lparr>page = 1, limit = 20, sortBy = Some ''createdAt'', sortOrder = Some Desc\<rparr>])
   \<and> ListUsers_execute repo ''admin'' filters (Some opts) =
        (Inr (findAll repo filters
                \<lparr>page = (if page opts = 0 then 1 else page opts),
                 limit = (if limit opts = 0 then 20
                          else if limit opts > 100 then 100 else limit opts),
                 sortBy = Some (case sortBy opts of
                                  None \<Rightarrow> ''createdAt''
                                | Some s \<Rightarrow> if s = [] then ''createdAt'' else s),
                 sortOrder = Some (case sortOrder opts of None \<Rightarrow> Desc | Some d \<Rightarrow> d)\<rparr>),
         [CallFindAll filters
            \<lparr>page = (if page opts = 0 then 1 else page opts),
             limit = (if limit opts = 0 then 20
                      else if limit opts > 100 then 100 else limit opts),
             sortBy = Some (case sortBy opts of
                              None \<Rightarrow> ''createdAt''
                            | Some s \<Rightarrow> if s = [] then ''createdAt'' else s),
             sortOrder = Some (case sortOrder opts of None \<Rightarrow> Desc | Some d \<Rightarrow> d)\<rparr>])"
  by (simp add: ListUsers_execute_def orNum_def orStr_def Let_def split: option.splits)

theorem list_admin_only_defaults_cap_witness:
  "ListUsers_execute
       (mockUserRepository None None \<lparr>er_exists = False, er_conflicts = None\<rparr>)
       ''user'' None (Some \<lparr>page = 1, limit = 150, sortBy = None, sortOrder = None\<rparr>)
     = (Inl (Error ''Only administrators can view all users''), [])
   \<and> snd (ListUsers_execute
       (mockUserRepository None None \<lparr>er_exists = False, er_conflicts = None\<rparr>)
       ''admin'' None (Some \<lparr>page = 1, limit = 150, sortBy = None, sortOrder = None\<rparr>))
     = [CallFindAll None
          \<lparr>page = 1, limit = 100, sortBy = Some ''createdAt'', sortOrder = Some Desc\<rparr>]
   \<and> snd (ListUsers_execute
       (mockUserRepository None None \<lparr>er_exists = False, er_conflicts = None\<rparr>)
       ''admin'' None
       (Some \<lparr>page = 2, limit = 10, sortBy = Some ''username'', sortOrder = Some Asc\<rparr>))
     = [CallFindAll None
          \<lparr>page = 2, limit = 10, sortBy = Some ''username'', sortOrder = Some Asc\<rparr>]"
  using list_admin_only_defaults_cap
      [of "''user''" "mockUserRepository None None \<lparr>er_exists = False, er_conflicts = None\<rparr>"
          None "Some \<lparr>page = 1, limit = 150, sortBy = None, sortOrder = None\<rparr>"
          "\<lparr>page = 1, limit = 150, sortBy = None, sortOrder = None\<rparr>"]
    list_admin_only_defaults_cap
      [of "''user''" "mockUserRepository None None \<lparr>er_exists = False, er_conflicts = None\<rparr>"
          None "Some \<lparr>page = 1, limit = 150, sortBy = None, sortOrder = None\<rparr>"
          "\<lparr>page = 2, limit = 10, sortBy = Some ''username'', sortOrder = Some Asc\<rparr>"]
  by simp

section \<open>Searching users\<close>

text \<open>
  C9. For a search whose query is not empty and has at least two characters once trimmed,
  from a requester whose role is not admin, the search goes through: the port's \<open>search\<close>
  is called once with the trimmed query, and the options of that call have
  \<open>includeInactive\<close> false, whatever the request asked for, \<open>includeInactive: true\<close>
  included. There is no error.
\<close>

theorem search_forces_includeInactive:
  assumes "query \<noteq> []"
    and "length (trim query) \<ge> 2"
    and "requestingUserRole \<noteq> ''admin''"
  shows "\<exists>so. SearchUsers_execute repo query requestingUserRole options =
                (Inr (search repo (trim query) so), [CallSearch (trim query) so])
              \<and> includeInactive so = Some False"
  using assms by (simp add: SearchUsers_execute_def Let_def)

theorem search_forces_includeInactive_witness:
  "length (trim '' john '') \<ge> 2
   \<and> snd (SearchUsers_execute
            (mockUserRepository None None \<lparr>er_exists = False, er_conflicts = None\<rparr>)
            '' john '' ''user''
            (Some \<lparr>rq_limit = Some 10, rq_skip = None, rq_includeInactive = Some True\<rparr>))
       = [CallSearch ''john''
            \<lparr>page = 1, limit = 10, sortBy = None, sortOrder = None, skip = 0,
             includeInactive = Some False\<rparr>]"
proof -
  have t: "trim '' john '' = ''john''"
    by code_simp
  show ?thesis
    using search_forces_includeInactive
      [of "'' john ''" "''user''"
          "mockUserRepository None None \<lparr>er_exists = False, er_conflicts = None\<rparr>"
          "Some \<lparr>rq_limit = Some 10, rq_skip = None, rq_includeInactive = Some True\<rparr>"]
    by (auto simp: t SearchUsers_execute_def orNum_def Let_def)
qed

section \<open>Lookup before authorization\<close>

text \<open>
  C10. \<open>GetUser\<close>, \<open>UpdateUser\<close> and \<open>DeleteUser\<close> look the target up before they check
  the requester: when no user has the id, each of them fails with "User not found" for
  every requester and every role, after the one call \<open>findById\<close>. When the user is
  there and the requester is neither the owner nor an admin, \<open>UpdateUser\<close> and
  \<open>DeleteUser\<close> fail with their own permission error and \<open>GetUser\<close> fails with
  "This profile is private" or returns the user; none of these is the not-found error, so
  such a requester learns whether the account exists.
\<close>

theorem lookup_precedes_authorization:
  "(findById repo userId = None \<longrightarrow>
      GetUser_execute repo userId requestingUserId requestingUserRole
        = (Inl (Error ''User not found''), [CallFindById userId])
      \<and> UpdateUser_execute repo now userId requestingUserId requestingUserRole profileIn
            preferencesIn
        = (Inl (Error ''User not found''), [CallFindById userId])
      \<and> DeleteUser_execute repo now userId requestingUserId requestingUserRole
        = (Inl (Error ''User not found''), [CallFindById userId]))
   \<and> (findById repo userId = Some user \<and> requestingUserRole \<noteq> ''admin''
        \<and> requestingUserId \<noteq> userId \<longrightarrow>
      GetUser_execute repo userId requestingUserId requestingUserRole
        = (if profileVisibility (privacy (preferences user)) = Private
           then Inl (Error ''This profile is private'') else Inr user,
           [CallFindById userId])
      \<and> UpdateUser_execute repo now userId requestingUserId requestingUserRole profileIn
            preferencesIn
        = (Inl (Error ''You can only update your own profile or you must be an admin''),
           [CallFindById userId])
      \<and> DeleteUser_execute repo now userId requestingUserId requestingUserRole
        = (Inl (Error ''You can only delete your own account or you must be an admin''),
           [CallFindById userId])
      \<and> fst (GetUser_execute repo userId requestingUserId requestingUserRole)
          \<noteq> Inl (Error ''User not found'')
      \<and> fst (UpdateUser_execute repo now userId requestingUserId requestingUserRole profileIn
            preferencesIn)
          \<noteq> Inl (Error ''User not found'')
      \<and> fst (DeleteUser_execute repo now userId requestingUserId requestingUserRole)
          \<noteq> Inl (Error ''User not found''))"
  by (simp add: GetUser_execute_def UpdateUser_execute_def DeleteUser_execute_def)

theorem lookup_precedes_authorization_witness:
  "GetUser_execute (mockUserRepository None None \<lparr>er_exists = False, er_conflicts = None\<rparr>)
       ''user-123'' ''other-456'' ''user''
     = (Inl (Error ''User not found''), [CallFindById ''user-123''])
   \<and> UpdateUser_execute (mockUserRepository None None \<lparr>er_exists = False, er_conflicts = None\<rparr>)
       (\<lambda>k. 0) ''user-123'' ''other-456'' ''user'' None None
     = (Inl (Error ''User not found''), [CallFindById ''user-123''])
   \<and> DeleteUser_execute (mockUserRepository None None \<lparr>er_exists = False, er_conflicts = None\<rparr>)
       (\<lambda>k. 0) ''user-123'' ''other-456'' ''user''
     = (Inl (Error ''User not found''), [CallFindById ''user-123''])
   \<and> DeleteUser_execute
       (mockUserRepository (Some (createMockUser (Some ''user-123'') RoleUser 0)) None
          \<lparr>er_exists = False, er_conflicts = None\<rparr>)
       (\<lambda>k. 0) ''user-123'' ''other-456'' ''user''
     = (Inl (Error ''You can only delete your own account or you must be an admin''),
        [CallFindById ''user-123''])"
  using lookup_precedes_authorization
      [of "mockUserRepository None None \<lparr>er_exists = False, er_conflicts = None\<rparr>"
          "''user-123''" "''other-456''" "''user''" "\<lambda>k. 0" None None]
    lookup_precedes_authorization
      [of "mockUserRepository (Some (createMockUser (Some ''user-123'') RoleUser 0)) None
             \<lparr>er_exists = False, er_conflicts = None\<rparr>"
          "''user-123''" "''other-456''" "''user''" "\<lambda>k. 0" None None
          "createMockUser (Some ''user-123'') RoleUser 0"]
  by (simp add: mockUserRepository_def)

section \<open>Addresses\<close>

lemma filter_isDefault_cleared:
  "filter isDefault (map (\<lambda>addr. addr\<lparr>isDefault := False\<rparr>) xs) = []"
  by (induction xs) simp_all

lemma nth_cleared:
  "i < length xs \<Longrightarrow> \<not> isDefault ((map (\<lambda>addr. addr\<lparr>isDefault := False\<rparr>) xs @ ys) ! i)"
  by (simp add: nth_append)

text \<open>
  C7. If at most one stored address is the default before \<open>addAddress\<close>, at most one is
  after it. On an empty list the call leaves exactly one address, and it is the default,
  whatever the flag of the address given. When the address given is marked default, every
  address stored before has its flag cleared, the new one is the default, and exactly one
  address is.
\<close>

theorem addAddress_single_default:
  "(length (filter isDefault (addresses u)) \<le> 1 \<longrightarrow>
      length (filter isDefault (addresses (addAddress u a uuid t1 t2 t3))) \<le> 1)
   \<and> (addresses u = [] \<longrightarrow>
        length (addresses (addAddress u a uuid t1 t2 t3)) = 1
        \<and> length (filter isDefault (addresses (addAddress u a uuid t1 t2 t3))) = 1)
   \<and> (in_isDefault a \<longrightarrow>
        length (addresses (addAddress u a uuid t1 t2 t3)) = Suc (length (addresses u))
        \<and> (\<forall>i < length (addresses u). \<not> isDefault (addresses (addAddress u a uuid t1 t2 t3) ! i))
        \<and> isDefault (addresses (addAddress u a uuid t1 t2 t3) ! length (addresses u))
        \<and> length (filter isDefault (addresses (addAddress u a uuid t1 t2 t3))) = 1)"
  by (simp add: addAddress_def Let_def filter_isDefault_cleared nth_cleared nth_append)

theorem addAddress_single_default_witness:
  "length (filter isDefault (addresses (createMockUser None RoleUser 0))) \<le> 1
   \<and> map isDefault
        (addresses
          (addAddress (createMockUser None RoleUser 0)
             \<lparr>in_type = Home, in_addressLine1 = ''1 Main St'', in_addressLine2 = None,
              in_city = ''Hanoi'', in_stateProvince = None, in_postalCode = None,
              in_country = ''VN'', in_isDefault = False\<rparr>
             ''a1'' 1 2 3))
       = [True]
   \<and> map isDefault
        (addresses
          (addAddress
             (addAddress (createMockUser None RoleUser 0)
                \<lparr>in_type = Home, in_addressLine1 = ''1 Main St'', in_addressLine2 = None,
                 in_city = ''Hanoi'', in_stateProvince = None, in_postalCode = None,
                 in_country = ''VN'', in_isDefault = False\<rparr>
                ''a1'' 1 2 3)
             \<lparr>in_type = Work, in_addressLine1 = ''2 Side St'', in_addressLine2 = None,
              in_city = ''Hue'', in_stateProvince = None, in_postalCode = None,
              in_country = ''VN'', in_isDefault = True\<rparr>
             ''a2'' 4 5 6))
       = [False, True]"
  using addAddress_single_default
    [of "createMockUser None RoleUser 0"
        "\<lparr>in_type = Home, in_addressLine1 = ''1 Main St'', in_addressLine2 = None,
          in_city = ''Hanoi'', in_stateProvince = None, in_postalCode = None,
          in_country = ''VN'', in_isDefault = False\<rparr>" "''a1''" 1 2 3]
    addAddress_single_default
    [of "addAddress (createMockUser None RoleUser 0)
           \<lparr>in_type = Home, in_addressLine1 = ''1 Main St'', in_addressLine2 = None,
            in_city = ''Hanoi'', in_stateProvince = None, in_postalCode = None,
            in_country = ''VN'', in_isDefault = False\<rparr> ''a1'' 1 2 3"
        "\<lparr>in_type = Work, in_addressLine1 = ''2 Side St'', in_addressLine2 = None,
          in_city = ''Hue'', in_stateProvince = None, in_postalCode = None,
          in_country = ''VN'', in_isDefault = True\<rparr>" "''a2''" 4 5 6]
  by (simp add: addAddress_def createMockUser_def User_create_def Let_def)

section \<open>Linking a social account\<close>

lemma findIndex_Some:
  "findIndex P xs = Some i \<Longrightarrow> i < length xs \<and> P (xs ! i)"
proof (induction xs arbitrary: i)
  case Nil
  then show ?case by simp
next
  case (Cons x xs)
  then show ?case
    by (cases "P x") (auto split: option.splits)
qed

lemma findIndex_None:
  "findIndex P xs = None \<longleftrightarrow> (\<forall>x \<in> set xs. \<not> P x)"
  by (induction xs) (auto split: option.splits)

lemma findIndex_found:
  assumes "x \<in> set xs" and "P x"
  shows "\<exists>i. findIndex P xs = Some i"
proof (cases "findIndex P xs")
  case None
  with assms show ?thesis by (simp add: findIndex_None)
next
  case (Some i)
  then show ?thesis by simp
qed

lemma length_filter_update:
  "i < length xs \<Longrightarrow> P y = P (xs ! i) \<Longrightarrow> length (filter P (xs[i := y])) = length (filter P xs)"
proof (induction xs arbitrary: i)
  case Nil
  then show ?case by simp
next
  case (Cons x xs)
  then show ?case by (cases i) simp_all
qed

lemma linkSocialAccount_has_active:
  "\<exists>a \<in> set (socialAccounts (linkSocialAccount u p pid pe pd uuid t1 t2)).
     provider a = p \<and> sa_isActive a"
proof (cases "findIndex (\<lambda>account. provider account = p \<and> sa_isActive account) (socialAccounts u)")
  case None
  then show ?thesis by (simp add: linkSocialAccount_def)
next
  case (Some i)
  from findIndex_Some [OF Some]
  have i: "i < length (socialAccounts u)"
    and a: "provider (socialAccounts u ! i) = p" "sa_isActive (socialAccounts u ! i)"
    by simp_all
  let ?a = "(socialAccounts u ! i)\<lparr>providerId := pid, providerEmail := pe,
              providerData := providerData (socialAccounts u ! i) ++ pd, linkedAt := t1\<rparr>"
  have m: "?a \<in> set ((socialAccounts u)[i := ?a])"
    using i by (simp add: set_update_memI)
  have pa: "provider ?a = p \<and> sa_isActive ?a"
    using a by simp
  have "socialAccounts (linkSocialAccount u p pid pe pd uuid t1 t2) = (socialAccounts u)[i := ?a]"
    using Some by (simp add: linkSocialAccount_def)
  with m pa show ?thesis
    by (intro bexI [of _ ?a]) simp_all
qed

lemma linkSocialAccount_twice:
  "\<exists>i. i < length (socialAccounts (linkSocialAccount u p pid1 pe1 pd1 uuid1 t1 t2))
       \<and> provider (socialAccounts (linkSocialAccount u p pid1 pe1 pd1 uuid1 t1 t2) ! i) = p
       \<and> sa_isActive (socialAccounts (linkSocialAccount u p pid1 pe1 pd1 uuid1 t1 t2) ! i)
       \<and> socialAccounts
            (linkSocialAccount (linkSocialAccount u p pid1 pe1 pd1 uuid1 t1 t2)
               p pid2 pe2 pd2 uuid2 t3 t4)
          = (socialAccounts (linkSocialAccount u p pid1 pe1 pd1 uuid1 t1 t2))
              [i := (socialAccounts (linkSocialAccount u p pid1 pe1 pd1 uuid1 t1 t2) ! i)
                      \<lparr>providerId := pid2, providerEmail := pe2,
                       providerData :=
                         providerData
                           (socialAccounts (linkSocialAccount u p pid1 pe1 pd1 uuid1 t1 t2) ! i)
                         ++ pd2,
                       linkedAt := t3\<rparr>]"
proof -
  let ?u1 = "linkSocialAccount u p pid1 pe1 pd1 uuid1 t1 t2"
  let ?P = "\<lambda>account. provider account = p \<and> sa_isActive account"
  obtain a where "a \<in> set (socialAccounts ?u1)" "?P a"
    using linkSocialAccount_has_active [of u p pid1 pe1 pd1 uuid1 t1 t2] by blast
  then obtain i where i: "findIndex ?P (socialAccounts ?u1) = Some i"
    using findIndex_found [of a "socialAccounts ?u1" ?P] by blast
  from findIndex_Some [OF i] have "i < length (socialAccounts ?u1)" "?P (socialAccounts ?u1 ! i)"
    by simp_all
  moreover have "socialAccounts (linkSocialAccount ?u1 p pid2 pe2 pd2 uuid2 t3 t4)
      = (socialAccounts ?u1)
          [i := (socialAccounts ?u1 ! i)
                  \<lparr>providerId := pid2, providerEmail := pe2,
                   providerData := providerData (socialAccounts ?u1 ! i) ++ pd2,
                   linkedAt := t3\<rparr>]"
    using i by (simp add: linkSocialAccount_def [of ?u1])
  ultimately show ?thesis by blast
qed

lemma linkSocialAccount_one_active:
  assumes "\<forall>q. length (filter (\<lambda>a. provider a = q \<and> sa_isActive a) (socialAccounts u)) \<le> 1"
  shows "length (filter (\<lambda>a. provider a = q \<and> sa_isActive a)
                   (socialAccounts (linkSocialAccount u p pid pe pd uuid t1 t2))) \<le> 1"
proof (cases "findIndex (\<lambda>account. provider account = p \<and> sa_isActive account) (socialAccounts u)")
  case None
  then have no: "filter (\<lambda>a. provider a = p \<and> sa_isActive a) (socialAccounts u) = []"
    by (simp add: findIndex_None filter_empty_conv)
  show ?thesis
  proof (cases "q = p")
    case True
    with None no show ?thesis by (simp add: linkSocialAccount_def)
  next
    case False
    with None assms show ?thesis by (simp add: linkSocialAccount_def)
  qed
next
  case (Some i)
  from findIndex_Some [OF Some] have i: "i < length (socialAccounts u)" by simp
  have "length (filter (\<lambda>a. provider a = q \<and> sa_isActive a)
          ((socialAccounts u)[i := (socialAccounts u ! i)
             \<lparr>providerId := pid, providerEmail := pe,
              providerData := providerData (socialAccounts u ! i) ++ pd, linkedAt := t1\<rparr>]))
        = length (filter (\<lambda>a. provider a = q \<and> sa_isActive a) (socialAccounts u))"
    by (rule length_filter_update [OF i]) simp
  with Some assms show ?thesis by (simp add: linkSocialAccount_def)
qed

text \<open>
  C6. Linking a provider twice on one user: after the first call the user has an active
  account of that provider, and the second call rewrites that account where it stands
  (new provider id and email, the new provider data merged over the old, \<open>linkedAt\<close>
  refreshed) and appends nothing. A user with at most one active account for each provider
  still has at most one after \<open>linkSocialAccount\<close>. In the use case, an authorized
  request on an existing user whose provider and provider id belong to a user with another
  id fails with the error that names the provider, and the port receives no write, so the
  target user stays as stored; when the pair is not bound, or is bound to the target, the
  use case writes the user that \<open>linkSocialAccount\<close> returns.
\<close>

theorem link_in_place_and_conflict:
  "(\<exists>i. i < length (socialAccounts (linkSocialAccount u p pid1 pe1 pd1 uuid1 t1 t2))
       \<and> provider (socialAccounts (linkSocialAccount u p pid1 pe1 pd1 uuid1 t1 t2) ! i) = p
       \<and> sa_isActive (socialAccounts (linkSocialAccount u p pid1 pe1 pd1 uuid1 t1 t2) ! i)
       \<and> socialAccounts
            (linkSocialAccount (linkSocialAccount u p pid1 pe1 pd1 uuid1 t1 t2)
               p pid2 pe2 pd2 uuid2 t3 t4)
          = (socialAccounts (linkSocialAccount u p pid1 pe1 pd1 uuid1 t1 t2))
              [i := (socialAccounts (linkSocialAccount u p pid1 pe1 pd1 uuid1 t1 t2) ! i)
                      \<lparr>providerId := pid2, providerEmail := pe2,
                       providerData :=
                         providerData
                           (socialAccounts (linkSocialAccount u p pid1 pe1 pd1 uuid1 t1 t2) ! i)
                         ++ pd2,
                       linkedAt := t3\<rparr>])
   \<and> length (socialAccounts
         (linkSocialAccount (linkSocialAccount u p pid1 pe1 pd1 uuid1 t1 t2)
            p pid2 pe2 pd2 uuid2 t3 t4))
       = length (socialAccounts (linkSocialAccount u p pid1 pe1 pd1 uuid1 t1 t2))
   \<and> ((\<forall>q. length (filter (\<lambda>a. provider a = q \<and> sa_isActive a) (socialAccounts u)) \<le> 1) \<longrightarrow>
        (\<forall>q. length (filter (\<lambda>a. provider a = q \<and> sa_isActive a)
                       (socialAccounts (linkSocialAccount u p pid1 pe1 pd1 uuid1 t1 t2))) \<le> 1))
   \<and> ((requestingUserRole = ''admin'' \<or> requestingUserId = userId)
        \<and> findById repo userId = Some user
        \<and> findBySocialAccount repo p pid1 = Some other
        \<and> user_id other \<noteq> Some userId \<longrightarrow>
        LinkSocialAccount_execute repo now uuid1 userId requestingUserId requestingUserRole
            p pid1 pe1 pdIn
          = (Inl (Error (''This '' @ providerString p
                         @ '' account is already linked to another user'')),
             [CallFindById userId, CallFindBySocialAccount p pid1]))
   \<and> ((requestingUserRole = ''admin'' \<or> requestingUserId = userId)
        \<and> findById repo userId = Some user
        \<and> (findBySocialAccount repo p pid1 = None
             \<or> (\<exists>same. findBySocialAccount repo p pid1 = Some same
                        \<and> user_id same = Some userId)) \<longrightarrow>
        LinkSocialAccount_execute repo now uuid1 userId requestingUserId requestingUserRole
            p pid1 pe1 pdIn
          = (Inr (update repo
                    (linkSocialAccount user p pid1 pe1
                       (case pdIn of None \<Rightarrow> Map.empty | Some d \<Rightarrow> d) uuid1 (now 0) (now 1))),
             [CallFindById userId, CallFindBySocialAccount p pid1,
              CallUpdate
                (linkSocialAccount user p pid1 pe1
                   (case pdIn of None \<Rightarrow> Map.empty | Some d \<Rightarrow> d) uuid1 (now 0) (now 1))]))"
  apply (intro conjI)
  subgoal by (rule linkSocialAccount_twice)
  subgoal
    using linkSocialAccount_twice [of u p pid1 pe1 pd1 uuid1 t1 t2 pid2 pe2 pd2 uuid2 t3 t4]
    by (elim exE conjE) simp
  subgoal using linkSocialAccount_one_active [of u] by blast
  subgoal by (simp add: LinkSocialAccount_execute_def Let_def)
  subgoal by (auto simp: LinkSocialAccount_execute_def Let_def)
  done

theorem link_in_place_and_conflict_witness:
  "map providerId
     (socialAccounts
        (linkSocialAccount (createMockUser (Some ''user-123'') RoleUser 0) Google ''google-123''
           ''user@gmail.com'' Map.empty ''s1'' 1 2))
     = [''google-123'']
   \<and> map providerId
       (socialAccounts
          (linkSocialAccount
             (linkSocialAccount (createMockUser (Some ''user-123'') RoleUser 0) Google
                ''google-123'' ''user@gmail.com'' Map.empty ''s1'' 1 2)
             Google ''google-456'' ''user@gmail.com'' Map.empty ''s2'' 3 4))
     = [''google-456'']
   \<and> length (filter (\<lambda>a. provider a = Google \<and> sa_isActive a)
         (socialAccounts
            (linkSocialAccount (createMockUser (Some ''user-123'') RoleUser 0) Google
               ''google-123'' ''user@gmail.com'' Map.empty ''s1'' 1 2))) \<le> 1
   \<and> LinkSocialAccount_execute
       (mockUserRepository (Some (createMockUser (Some ''user-123'') RoleUser 0))
          (Some (createMockUser (Some ''other-user-456'') RoleUser 0))
          \<lparr>er_exists = False, er_conflicts = None\<rparr>)
       (\<lambda>k. 0) ''s1'' ''user-123'' ''user-123'' ''user'' Google ''google-123''
       ''user@gmail.com'' None
     = (Inl (Error ''This google account is already linked to another user''),
        [CallFindById ''user-123'', CallFindBySocialAccount Google ''google-123''])"
proof -
  let ?u = "createMockUser (Some ''user-123'') RoleUser 0"
  let ?o = "createMockUser (Some ''other-user-456'') RoleUser 0"
  let ?repo = "mockUserRepository (Some ?u) (Some ?o) \<lparr>er_exists = False, er_conflicts = None\<rparr>"
  have f: "findById ?repo ''user-123'' = Some ?u"
    and g: "findBySocialAccount ?repo Google ''google-123'' = Some ?o"
    and h: "user_id ?o \<noteq> Some ''user-123''"
    by (simp_all add: mockUserRepository_def createMockUser_def User_create_def)
  have l1: "socialAccounts (linkSocialAccount ?u Google ''google-123'' ''user@gmail.com''
                Map.empty ''s1'' 1 2)
      = [\<lparr>sa_id = ''s1'', provider = Google, providerId = ''google-123'',
          providerEmail = ''user@gmail.com'', providerData = Map.empty, linkedAt = 1,
          sa_isActive = True\<rparr>]"
    by (simp add: linkSocialAccount_def createMockUser_def User_create_def)
  have c: "LinkSocialAccount_execute ?repo (\<lambda>k. 0) ''s1'' ''user-123'' ''user-123'' ''user''
        Google ''google-123'' ''user@gmail.com'' None
      = (Inl (Error (''This '' @ providerString Google
                     @ '' account is already linked to another user'')),
         [CallFindById ''user-123'', CallFindBySocialAccount Google ''google-123''])"
    using link_in_place_and_conflict
        [of ?u Google "''google-123''" "''user@gmail.com''" Map.empty "''s1''" 1 2
            "''google-456''" "''user@gmail.com''" Map.empty "''s2''" 3 4
            "''user''" "''user-123''" "''user-123''" ?repo ?u ?o "\<lambda>k. 0" None]
      f g h
    by blast
  have l2: "map providerId
       (socialAccounts
          (linkSocialAccount
             (linkSocialAccount ?u Google ''google-123'' ''user@gmail.com'' Map.empty ''s1'' 1 2)
             Google ''google-456'' ''user@gmail.com'' Map.empty ''s2'' 3 4))
     = [''google-456'']"
    by (simp add: linkSocialAccount_def createMockUser_def User_create_def)
  have inv: "\<forall>q. length (filter (\<lambda>a. provider a = q \<and> sa_isActive a) (socialAccounts ?u)) \<le> 1"
    by (simp add: createMockUser_def User_create_def)
  have l3: "length (filter (\<lambda>a. provider a = Google \<and> sa_isActive a)
         (socialAccounts
            (linkSocialAccount ?u Google ''google-123'' ''user@gmail.com'' Map.empty ''s1'' 1 2)))
       \<le> 1"
    using link_in_place_and_conflict
        [of ?u Google "''google-123''" "''user@gmail.com''" Map.empty "''s1''" 1 2
            "''google-456''" "''user@gmail.com''" Map.empty "''s2''" 3 4
            "''user''" "''user-123''" "''user-123''" ?repo ?u ?o "\<lambda>k. 0" None]
      inv
    by blast
  show ?thesis
    using c l1 l2 l3 by simp
qed

section \<open>Email normalization\<close>

lemma regex_test_all:
  assumes "regex_test r s"
    and "\<forall>a \<in> set r. (case a of One p \<Rightarrow> \<forall>c. p c \<longrightarrow> Q c | Plus p \<Rightarrow> \<forall>c. p c \<longrightarrow> Q c)"
  shows "\<forall>c \<in> set s. Q c"
  using assms by (induction r s rule: regex_test.induct) auto

lemma Email_isValid_no_space:
  assumes "Email_isValid s"
  shows "\<forall>c \<in> set s. \<not> isWhiteSpace c"
proof -
  have ws: "\<not> isWhiteSpace CHR ''@''" "\<not> isWhiteSpace CHR ''.''"
    by (simp_all add: isWhiteSpace_def)
  show ?thesis
    using assms unfolding Email_isValid_def
    by (rule regex_test_all) (simp add: emailRegex_def notSpaceAt_def ws)
qed

text \<open>
  A string with white space anywhere, in front and at the end included, is no email: the
  format is tested on the string as given, and the trimming comes after the test.
\<close>

lemma Email_new_space_rejected:
  assumes "c \<in> set s" and "isWhiteSpace c"
  shows "Email_new s = Inl (Error ''Invalid email format'')"
  using assms Email_isValid_no_space [of s] by (auto simp: Email_new_def)

text \<open>
  C4. Email construction lower-cases and trims, so that inputs differing in letter case
  and surrounding white space would construct equal values, \<open>Email("A@B.com ")\<close> and
  \<open>Email("a@b.com")\<close> among them. The code lower-cases and trims only a string that has
  passed the format test, and the test refuses white space: \<open>Email("A@B.com ")\<close> and
  the \<open>Email("  test@example.com  ")\<close> of the unit test "should trim whitespace" throw
  "Invalid email format", while \<open>Email("A@B.com")\<close> and \<open>Email("a@b.com")\<close>
  construct the same value.
\<close>

theorem Email_new_trailing_space:
  "Email_new ''A@B.com '' = Inl (Error ''Invalid email format'')
   \<and> Email_new ''  test@example.com  '' = Inl (Error ''Invalid email format'')
   \<and> Email_new ''a@b.com'' = Inr (Email ''a@b.com'')
   \<and> Email_new ''A@B.com'' = Inr (Email ''a@b.com'')"
  by code_simp

end
